theory Spec2Isabelle
  imports Complex_Main
begin

unbundle bit_operations_syntax

section \<open>Values of the program\<close>

text \<open>
  Colours are the BGR triples of the source. \<open>RED\<close> and \<open>GREEN\<close> are the two module-level
  constants (lines 17 and 18 of \<^verbatim>\<open>main.py\<close>).
\<close>

type_synonym color = "int \<times> int \<times> int"

definition RED :: color where
  "RED = (0, 0, 255)"

definition GREEN :: color where
  "GREEN = (0, 255, 0)"

text \<open>
  What \<^verbatim>\<open>request.json\<close> can hand to the handler: a parsed JSON value. A JSON object is
  the Python \<^verbatim>\<open>dict\<close> with string keys, kept as an association list that is read with
  \<open>map_of\<close>. An integer literal parses to a Python \<^verbatim>\<open>int\<close>, a literal with a fraction or
  an exponent to a \<^verbatim>\<open>float\<close>; a float is kept as the real number it denotes (the handler
  never calculates with it).
\<close>

datatype json =
    JNull
  | JBool bool
  | JInt int
  | JFloat real
  | JStr string
  | JArr "json list"
  | JObj "(string \<times> json) list"

datatype py_error = KeyError string | TypeError

text \<open>
  \<^verbatim>\<open>data[k]\<close> for a string \<open>k\<close>: a dict raises \<^verbatim>\<open>KeyError\<close> on a missing key; a list, a
  string, a number, a boolean and \<^verbatim>\<open>None\<close> raise \<^verbatim>\<open>TypeError\<close>.
\<close>

fun getitem :: "json \<Rightarrow> string \<Rightarrow> py_error + json" where
  "getitem (JObj kvs) k =
     (case map_of kvs k of None \<Rightarrow> Inl (KeyError k) | Some v \<Rightarrow> Inr v)"
| "getitem JNull k = Inl TypeError"
| "getitem (JBool b) k = Inl TypeError"
| "getitem (JInt i) k = Inl TypeError"
| "getitem (JFloat r) k = Inl TypeError"
| "getitem (JStr s) k = Inl TypeError"
| "getitem (JArr xs) k = Inl TypeError"

text \<open>
  The keys of the Python dict \<^verbatim>\<open>ambulance_data\<close>. A dict compares keys with \<^verbatim>\<open>==\<close>, so
  \<^verbatim>\<open>1\<close>, \<^verbatim>\<open>1.0\<close> and \<^verbatim>\<open>True\<close> are one key; lists and dicts are unhashable and raise
  \<^verbatim>\<open>TypeError\<close> when used as a key.
\<close>

datatype py_key = KNone | KNum real | KStr string

fun dict_key :: "json \<Rightarrow> py_error + py_key" where
  "dict_key JNull = Inr KNone"
| "dict_key (JBool b) = Inr (KNum (if b then 1 else 0))"
| "dict_key (JInt i) = Inr (KNum (of_int i))"
| "dict_key (JFloat r) = Inr (KNum r)"
| "dict_key (JStr s) = Inr (KStr s)"
| "dict_key (JArr xs) = Inl TypeError"
| "dict_key (JObj kvs) = Inl TypeError"

text \<open>\<^verbatim>\<open>d[k] = v\<close> on a dict; the updated dict, or the error of an unhashable key.\<close>

definition setitem :: "(py_key \<rightharpoonup> 'v) \<Rightarrow> json \<Rightarrow> 'v \<Rightarrow> py_error + (py_key \<rightharpoonup> 'v)" where
  "setitem d k v = (case dict_key k of Inl e \<Rightarrow> Inl e | Inr h \<Rightarrow> Inr (d(h \<mapsto> v)))"

section \<open>Frames, detections and the drawing calls\<close>

text \<open>
  A frame is the captured image together with the OpenCV drawing calls applied to it so far,
  oldest first. The image itself is opaque (\<open>'img\<close>): rasterisation is OpenCV's.
\<close>

datatype draw_op =
    Rectangle "int \<times> int" "int \<times> int" color int
  | PutText string "int \<times> int" int real color int
  | Circle "int \<times> int" int color int

record 'img frame =
  pixels :: 'img
  drawn :: "draw_op list"

definition rectangle ::
  "'img frame \<Rightarrow> int \<times> int \<Rightarrow> int \<times> int \<Rightarrow> color \<Rightarrow> int \<Rightarrow> 'img frame" where
  "rectangle fr p1 p2 c thickness = fr\<lparr>drawn := drawn fr @ [Rectangle p1 p2 c thickness]\<rparr>"

definition putText ::
  "'img frame \<Rightarrow> string \<Rightarrow> int \<times> int \<Rightarrow> int \<Rightarrow> real \<Rightarrow> color \<Rightarrow> int \<Rightarrow> 'img frame" where
  "putText fr s org font scale c thickness =
     fr\<lparr>drawn := drawn fr @ [PutText s org font scale c thickness]\<rparr>"

definition circle ::
  "'img frame \<Rightarrow> int \<times> int \<Rightarrow> int \<Rightarrow> color \<Rightarrow> int \<Rightarrow> 'img frame" where
  "circle fr center radius c thickness = fr\<lparr>drawn := drawn fr @ [Circle center radius c thickness]\<rparr>"

definition FONT_HERSHEY_SIMPLEX :: int where
  "FONT_HERSHEY_SIMPLEX = 0"

text \<open>
  One box of a detector result: the class tensor's first entry and the four corner
  coordinates, as the numbers they hold. \<^verbatim>\<open>int(x)\<close> truncates towards zero.
\<close>

record box =
  cls :: real
  xyxy :: "real \<times> real \<times> real \<times> real"

type_synonym yolo_result = "box list"

definition py_int :: "real \<Rightarrow> int" where
  "py_int x = (if 0 \<le> x then \<lfloor>x\<rfloor> else \<lceil>x\<rceil>)"

section \<open>The program state\<close>

text \<open>
  The two module-level variables, and the effects the program has on its surroundings as
  traces: the lines printed, the video sources opened and the frames shown in the window.
\<close>

datatype source = Webcam int | VideoFile string

record 'img state =
  ambulance_data :: "py_key \<rightharpoonup> (json \<times> json)"
  traffic_light :: color
  console :: "string list"
  opened :: "source list"
  window :: "'img frame list"

definition initial_state :: "'img state" where
  "initial_state =
     \<lparr>ambulance_data = Map.empty, traffic_light = RED, console = [], opened = [], window = []\<rparr>"

section \<open>The GPS endpoint\<close>

text \<open>
  \<^verbatim>\<open>jsonify\<close> of the handler's dict: the tuple \<^verbatim>\<open>gps_location\<close> is serialised as a JSON array.
\<close>

definition jsonify_update :: "json \<Rightarrow> json \<times> json \<Rightarrow> json" where
  "jsonify_update ambulance_id gps_location =
     JObj [(''status'', JStr ''updated''),
           (''ambulance_id'', ambulance_id),
           (''location'', JArr [fst gps_location, snd gps_location])]"

text \<open>
  The handler of \<^verbatim>\<open>POST /update_gps\<close>, from the value of \<^verbatim>\<open>request.json\<close> on. It returns
  the response body or the exception that escapes, and the state it leaves.
\<close>

definition update_gps :: "'img state \<Rightarrow> json \<Rightarrow> (py_error + json) \<times> 'img state" where
  "update_gps st data =
     (case getitem data ''ambulance_id'' of
        Inl e \<Rightarrow> (Inl e, st)
      | Inr ambulance_id \<Rightarrow>
     (case getitem data ''latitude'' of
        Inl e \<Rightarrow> (Inl e, st)
      | Inr latitude \<Rightarrow>
     (case getitem data ''longitude'' of
        Inl e \<Rightarrow> (Inl e, st)
      | Inr longitude \<Rightarrow>
     (let gps_location = (latitude, longitude) in
      case setitem (ambulance_data st) ambulance_id gps_location of
        Inl e \<Rightarrow> (Inl e, st)
      | Inr d \<Rightarrow>
          (Inr (jsonify_update ambulance_id gps_location), st\<lparr>ambulance_data := d\<rparr>)))))"

section \<open>The stubs\<close>

definition is_ambulance_near :: "'a \<Rightarrow> bool" where
  "is_ambulance_near ambulance_gps = False"

definition get_fastest_route :: "'a \<Rightarrow> 'b \<Rightarrow> string \<times> string" where
  "get_fastest_route ambulance_gps hospital_gps = (''5 mins'', ''2 km'')"

section \<open>The signal and the detection\<close>

definition change_traffic_light :: "bool \<Rightarrow> 'img state \<Rightarrow> 'img state" where
  "change_traffic_light ambulance_detected st =
     st\<lparr>traffic_light := (if ambulance_detected then GREEN else RED)\<rparr>"

definition draw_traffic_light :: "'img state \<Rightarrow> 'img frame \<Rightarrow> 'img frame" where
  "draw_traffic_light st fr = (let light_color = traffic_light st in circle fr (50, 50) 30 light_color (- 1))"

text \<open>The inner loop of \<^verbatim>\<open>detect_ambulance\<close>, over the boxes of one result.\<close>

fun scan_boxes :: "box list \<Rightarrow> bool \<times> 'img frame \<Rightarrow> bool \<times> 'img frame" where
  "scan_boxes [] acc = acc"
| "scan_boxes (b # bs) (ambulance_detected, fr) =
     (let class_id = py_int (cls b) in
      if class_id = 5 then
        (case xyxy b of (a1, b1, a2, b2) \<Rightarrow>
           let x1 = py_int a1; y1 = py_int b1; x2 = py_int a2; y2 = py_int b2;
               fr1 = rectangle fr (x1, y1) (x2, y2) (0, 255, 255) 3;
               fr2 = putText fr1 ''AMBULANCE'' (x1, y1 - 10) FONT_HERSHEY_SIMPLEX (8 / 10) (0, 255, 255) 2
           in scan_boxes bs (True, fr2))
      else scan_boxes bs (ambulance_detected, fr))"

text \<open>The outer loop, over the results of the detector.\<close>

fun scan_results :: "yolo_result list \<Rightarrow> bool \<times> 'img frame \<Rightarrow> bool \<times> 'img frame" where
  "scan_results [] acc = acc"
| "scan_results (r # rs) acc = scan_results rs (scan_boxes r acc)"

text \<open>
  \<^verbatim>\<open>detect_ambulance\<close>: the detector \<^verbatim>\<open>model\<close> is the pre-trained network, a parameter here.
  The result is the flag returned and the frame as the drawing calls leave it.
\<close>

definition detect_ambulance ::
  "('img frame \<Rightarrow> yolo_result list) \<Rightarrow> 'img frame \<Rightarrow> bool \<times> 'img frame" where
  "detect_ambulance model fr = (let results = model fr in scan_results results (False, fr))"

section \<open>The main program\<close>

definition print :: "string \<Rightarrow> 'img state \<Rightarrow> 'img state" where
  "print s st = st\<lparr>console := console st @ [s]\<rparr>"

definition imshow :: "'img frame \<Rightarrow> 'img state \<Rightarrow> 'img state" where
  "imshow fr st = st\<lparr>window := window st @ [fr]\<rparr>"

text \<open>The first message starts with the four UTF-8 bytes of the ambulance emoji.\<close>

definition msg_detected :: string where
  "msg_detected =
     [CHR 0xF0, CHR 0x9F, CHR 0x9A, CHR 0x91] @ '' Ambulance detected! Turning traffic light GREEN.''"

definition msg_absent :: string where
  "msg_absent = ''No ambulance detected. Traffic light stays RED.''"

definition msg_usage :: string where
  "msg_usage = ''Error: Please provide either -p/--path for video or -l/--live for webcam.''"

text \<open>One pass through the body of the loop (lines 105 to 115), for a frame just read.\<close>

definition process_frame ::
  "('img frame \<Rightarrow> yolo_result list) \<Rightarrow> 'img \<Rightarrow> 'img state \<Rightarrow> 'img state" where
  "process_frame model img st =
     (case detect_ambulance model \<lparr>pixels = img, drawn = []\<rparr> of
        (ambulance_detected, fr) \<Rightarrow>
          let st1 = print (if ambulance_detected then msg_detected else msg_absent) st;
              st2 = change_traffic_light ambulance_detected st1;
              fr2 = draw_traffic_light st2 fr
          in imshow fr2 st2)"

text \<open>
  The capture: whether it opened, and what it will deliver: each frame that \<^verbatim>\<open>cap.read()\<close>
  returns, paired with what \<^verbatim>\<open>cv2.waitKey(1)\<close> returns after that frame is shown
  (\<open>-1\<close> when no key was pressed). At the end of the list \<^verbatim>\<open>cap.read()\<close> reports failure.
  The list is what one run delivers, so it is finite.
\<close>

record 'img capture =
  is_opened :: bool
  feed :: "('img \<times> int) list"

fun read_loop ::
  "('img frame \<Rightarrow> yolo_result list) \<Rightarrow> ('img \<times> int) list \<Rightarrow> 'img state \<Rightarrow> 'img state" where
  "read_loop model [] st = st"
| "read_loop model ((img, key) # rest) st =
     (let st1 = process_frame model img st in
      if key AND 0xFF = 113 then st1 else read_loop model rest st1)"

text \<open>
  The \<^verbatim>\<open>while\<close> loop of lines 100 to 117. Nothing in the body releases the capture, so
  \<^verbatim>\<open>cap.isOpened()\<close> has one value throughout; the loop ends at a failed read or at the
  key \<^verbatim>\<open>q\<close> (code 113 in the low byte of the key code).
\<close>

definition video_loop ::
  "('img frame \<Rightarrow> yolo_result list) \<Rightarrow> 'img capture \<Rightarrow> 'img state \<Rightarrow> 'img state" where
  "video_loop model cap st = (if is_opened cap then read_loop model (feed cap) st else st)"

text \<open>
  The namespace that \<^verbatim>\<open>parse_args\<close> returns for the two arguments declared on lines 88 and
  89: \<^verbatim>\<open>path\<close> is \<^verbatim>\<open>None\<close> unless \<^verbatim>\<open>-p\<close> is given, \<^verbatim>\<open>live\<close> is \<^verbatim>\<open>False\<close> unless \<^verbatim>\<open>-l\<close>
  is given. The parser declares no exclusive group, so every combination occurs.
\<close>

record args =
  path :: "string option"
  live :: bool

text \<open>
  The main program from line 92 on: the exit status and the final state.
  \<^verbatim>\<open>VideoCapture\<close> is the environment's answer to opening a source. A string is true
  in a condition when it is not empty. \<^verbatim>\<open>exit(1)\<close> ends the program with status 1; a run
  that reaches the last line ends with status 0 (releasing the capture and closing the
  window leave the state recorded here as it is).
\<close>

definition main ::
  "(source \<Rightarrow> 'img capture) \<Rightarrow> ('img frame \<Rightarrow> yolo_result list) \<Rightarrow> args \<Rightarrow> 'img state
     \<Rightarrow> int \<times> 'img state" where
  "main VideoCapture model a st =
     (if live a then
        (0, video_loop model (VideoCapture (Webcam 0)) (st\<lparr>opened := opened st @ [Webcam 0]\<rparr>))
      else
        (case path a of
           Some p \<Rightarrow>
             if p \<noteq> [] then
               (0, video_loop model (VideoCapture (VideoFile p))
                     (st\<lparr>opened := opened st @ [VideoFile p]\<rparr>))
             else (1, print msg_usage st)
         | None \<Rightarrow> (1, print msg_usage st)))"

section \<open>Notions the statements use\<close>

text \<open>The two drawing calls of lines 82 and 83 for one box, in the order they are made.\<close>

definition annotation_of :: "box \<Rightarrow> draw_op list" where
  "annotation_of b =
     (case xyxy b of (a1, b1, a2, b2) \<Rightarrow>
        [Rectangle (py_int a1, py_int b1) (py_int a2, py_int b2) (0, 255, 255) 3,
         PutText ''AMBULANCE'' (py_int a1, py_int b1 - 10) FONT_HERSHEY_SIMPLEX (8 / 10)
           (0, 255, 255) 2])"

text \<open>
  The frames that the loop handles: those read up to and including the first one after
  which the key \<^verbatim>\<open>q\<close> is seen, or all of them when it never is.
\<close>

fun frames_processed :: "('img \<times> int) list \<Rightarrow> 'img list" where
  "frames_processed [] = []"
| "frames_processed ((img, key) # rest) =
     img # (if key AND 0xFF = 113 then [] else frames_processed rest)"

text \<open>
  The states the program can be in: the state at start-up, and what a request to the
  endpoint, a call of \<open>change_traffic_light\<close>, a pass of the loop body or a whole run of the
  main program make of such a state.
\<close>

inductive reachable :: "('img frame \<Rightarrow> yolo_result list) \<Rightarrow> 'img state \<Rightarrow> bool"
  for model :: "'img frame \<Rightarrow> yolo_result list" where
  start: "reachable model initial_state"
| request: "reachable model st \<Longrightarrow> reachable model (snd (update_gps st data))"
| switch: "reachable model st \<Longrightarrow> reachable model (change_traffic_light d st)"
| frame: "reachable model st \<Longrightarrow> reachable model (process_frame model img st)"
| run: "reachable model st \<Longrightarrow> reachable model (snd (main VideoCapture model a st))"

section \<open>The stubs always answer the same\<close>

text \<open>
  C6: whatever coordinate value it is given, \<open>is_ambulance_near\<close> returns false.
\<close>

theorem is_ambulance_near_never: "is_ambulance_near ambulance_gps = False"
  by (simp add: is_ambulance_near_def)

text \<open>
  C7: whatever pair of coordinates it is given, \<open>get_fastest_route\<close> returns the pair of the
  strings "5 mins" and "2 km".
\<close>

theorem get_fastest_route_constant:
  "get_fastest_route ambulance_gps hospital_gps = (''5 mins'', ''2 km'')"
  by (simp add: get_fastest_route_def)

section \<open>The GPS endpoint: what a request does\<close>

text \<open>
  A request whose body is a dict with the three fields and a hashable identifier is
  accepted: the handler returns the response and the state with the one entry written.
\<close>

lemma update_gps_accepts:
  assumes "map_of kvs ''ambulance_id'' = Some aid"
    and "map_of kvs ''latitude'' = Some lat"
    and "map_of kvs ''longitude'' = Some lon"
    and "dict_key aid = Inr k"
  shows "update_gps st (JObj kvs) =
           (Inr (JObj [(''status'', JStr ''updated''), (''ambulance_id'', aid),
                       (''location'', JArr [lat, lon])]),
            st\<lparr>ambulance_data := (ambulance_data st)(k \<mapsto> (lat, lon))\<rparr>)"
  using assms by (simp add: update_gps_def setitem_def jsonify_update_def)

text \<open>An exception leaves the state as it was: the only write is the last step.\<close>

lemma update_gps_error_keeps_state:
  "fst (update_gps st data) = Inl e \<Longrightarrow> snd (update_gps st data) = st"
  by (auto simp: update_gps_def setitem_def Let_def split: sum.splits)

text \<open>A body that is not a dict raises \<^verbatim>\<open>TypeError\<close> at the first subscript.\<close>

lemma update_gps_not_a_dict:
  "(\<forall>kvs. data \<noteq> JObj kvs) \<Longrightarrow> update_gps st data = (Inl TypeError, st)"
  by (cases data) (simp_all add: update_gps_def)

text \<open>
  C3, as the claim states it, fails: a body can contain the three fields and still not be
  stored. With the list \<^verbatim>\<open>[]\<close> as \<^verbatim>\<open>ambulance_id\<close> the assignment on line 35 raises
  \<^verbatim>\<open>TypeError\<close> (a list is unhashable), nothing is stored and no response is produced.
\<close>

theorem update_gps_unhashable_id_counterexample:
  "update_gps (initial_state :: unit state)
     (JObj [(''ambulance_id'', JArr []), (''latitude'', JFloat 1), (''longitude'', JFloat 2)])
   = (Inl TypeError, initial_state)"
  by (simp add: update_gps_def setitem_def)

text \<open>
  C3, amended: for every POST whose JSON body is an object that contains \<open>ambulance_id\<close>,
  \<open>latitude\<close> and \<open>longitude\<close>, and whose \<open>ambulance_id\<close> is hashable (null, a boolean, a
  number or a string), the handler stores the pair (latitude, longitude) in the global
  mapping under the key \<open>ambulance_id\<close>, and the response carries the status "updated", the
  same identifier and the stored pair of coordinates.
\<close>

theorem update_gps_stores_and_echoes:
  assumes "map_of kvs ''ambulance_id'' = Some aid"
    and "map_of kvs ''latitude'' = Some lat"
    and "map_of kvs ''longitude'' = Some lon"
    and "dict_key aid = Inr k"
  shows "ambulance_data (snd (update_gps st (JObj kvs))) k = Some (lat, lon) \<and>
         fst (update_gps st (JObj kvs)) =
           Inr (JObj [(''status'', JStr ''updated''), (''ambulance_id'', aid),
                      (''location'', JArr [lat, lon])])"
  by (simp add: update_gps_accepts [OF assms])

theorem update_gps_stores_and_echoes_witness:
  "ambulance_data (snd (update_gps (initial_state :: unit state)
       (JObj [(''ambulance_id'', JStr ''A1''), (''latitude'', JFloat 1), (''longitude'', JFloat 2)])))
     (KStr ''A1'') = Some (JFloat 1, JFloat 2) \<and>
   fst (update_gps (initial_state :: unit state)
       (JObj [(''ambulance_id'', JStr ''A1''), (''latitude'', JFloat 1), (''longitude'', JFloat 2)])) =
     Inr (JObj [(''status'', JStr ''updated''), (''ambulance_id'', JStr ''A1''),
                (''location'', JArr [JFloat 1, JFloat 2])])"
  using update_gps_stores_and_echoes
    [of "[(''ambulance_id'', JStr ''A1''), (''latitude'', JFloat 1), (''longitude'', JFloat 2)]"
        "JStr ''A1''" "JFloat 1" "JFloat 2" "KStr ''A1''" "initial_state :: unit state"]
  by simp

text \<open>
  C4: a well-formed POST for an identifier that already has an entry replaces that entry.
  After two updates in a row under the same key the mapping holds the second pair there,
  and the state is the one that the second update alone would have left: nothing of the
  first pair is retained.
\<close>

theorem update_gps_last_write_wins:
  assumes "map_of kvs1 ''ambulance_id'' = Some aid1"
    and "map_of kvs1 ''latitude'' = Some lat1"
    and "map_of kvs1 ''longitude'' = Some lon1"
    and "map_of kvs2 ''ambulance_id'' = Some aid2"
    and "map_of kvs2 ''latitude'' = Some lat2"
    and "map_of kvs2 ''longitude'' = Some lon2"
    and "dict_key aid1 = Inr k"
    and "dict_key aid2 = Inr k"
  shows "ambulance_data (snd (update_gps (snd (update_gps st (JObj kvs1))) (JObj kvs2))) k
           = Some (lat2, lon2) \<and>
         snd (update_gps (snd (update_gps st (JObj kvs1))) (JObj kvs2))
           = snd (update_gps st (JObj kvs2))"
proof -
  have first: "snd (update_gps st (JObj kvs1))
                 = st\<lparr>ambulance_data := (ambulance_data st)(k \<mapsto> (lat1, lon1))\<rparr>"
    using assms(1,2,3,7) by (simp add: update_gps_accepts)
  have second: "snd (update_gps s (JObj kvs2))
                  = s\<lparr>ambulance_data := (ambulance_data s)(k \<mapsto> (lat2, lon2))\<rparr>" for s :: "'a state"
    using assms(4,5,6,8) by (simp add: update_gps_accepts)
  show ?thesis
    by (simp add: first second)
qed

theorem update_gps_last_write_wins_witness:
  "ambulance_data (snd (update_gps (snd (update_gps (initial_state :: unit state)
       (JObj [(''ambulance_id'', JStr ''A1''), (''latitude'', JFloat 1), (''longitude'', JFloat 2)])))
       (JObj [(''ambulance_id'', JStr ''A1''), (''latitude'', JFloat 3), (''longitude'', JFloat 4)])))
     (KStr ''A1'') = Some (JFloat 3, JFloat 4) \<and>
   snd (update_gps (snd (update_gps (initial_state :: unit state)
       (JObj [(''ambulance_id'', JStr ''A1''), (''latitude'', JFloat 1), (''longitude'', JFloat 2)])))
       (JObj [(''ambulance_id'', JStr ''A1''), (''latitude'', JFloat 3), (''longitude'', JFloat 4)]))
     = snd (update_gps (initial_state :: unit state)
       (JObj [(''ambulance_id'', JStr ''A1''), (''latitude'', JFloat 3), (''longitude'', JFloat 4)]))"
  by (rule update_gps_last_write_wins
    [of "[(''ambulance_id'', JStr ''A1''), (''latitude'', JFloat 1), (''longitude'', JFloat 2)]"
        "JStr ''A1''" "JFloat 1" "JFloat 2"
        "[(''ambulance_id'', JStr ''A1''), (''latitude'', JFloat 3), (''longitude'', JFloat 4)]"
        "JStr ''A1''" "JFloat 3" "JFloat 4" "KStr ''A1''" "initial_state :: unit state"])
    simp_all

text \<open>
  C8: when the body is a JSON object that lacks one of \<open>ambulance_id\<close>, \<open>latitude\<close> and
  \<open>longitude\<close>, the handler ends in the \<^verbatim>\<open>KeyError\<close> of a missing field (no response is
  produced) and the state, the GPS mapping in it, is what it was before the request.
\<close>

theorem update_gps_missing_field:
  assumes "map_of kvs ''ambulance_id'' = None \<or> map_of kvs ''latitude'' = None
           \<or> map_of kvs ''longitude'' = None"
  shows "\<exists>f. f \<in> set [''ambulance_id'', ''latitude'', ''longitude''] \<and> map_of kvs f = None \<and>
           update_gps st (JObj kvs) = (Inl (KeyError f), st)"
proof (cases "map_of kvs ''ambulance_id''")
  case None
  then show ?thesis by (auto simp: update_gps_def)
next
  case a: (Some aid)
  show ?thesis
  proof (cases "map_of kvs ''latitude''")
    case None
    with a show ?thesis by (auto simp: update_gps_def)
  next
    case b: (Some lat)
    with a assms have "map_of kvs ''longitude'' = None" by simp
    with a b show ?thesis by (auto simp: update_gps_def)
  qed
qed

theorem update_gps_missing_field_witness:
  "update_gps (initial_state :: unit state)
     (JObj [(''ambulance_id'', JStr ''A1''), (''latitude'', JFloat 1)])
   = (Inl (KeyError ''longitude''), initial_state)"
  using update_gps_missing_field
    [of "[(''ambulance_id'', JStr ''A1''), (''latitude'', JFloat 1)]" "initial_state :: unit state"]
  by auto

text \<open>
  C9: a well-formed POST changes at most the entry under the key of its own
  \<open>ambulance_id\<close>. The entry under every other key is what it was, and so are the signal
  state and the rest of the program state.
\<close>

theorem update_gps_changes_only_own_entry:
  assumes "getitem data ''ambulance_id'' = Inr aid"
    and "dict_key aid = Inr k"
    and "k' \<noteq> k"
  shows "ambulance_data (snd (update_gps st data)) k' = ambulance_data st k' \<and>
         traffic_light (snd (update_gps st data)) = traffic_light st \<and>
         console (snd (update_gps st data)) = console st \<and>
         opened (snd (update_gps st data)) = opened st \<and>
         window (snd (update_gps st data)) = window st"
  using assms by (auto simp: update_gps_def setitem_def Let_def split: sum.splits)

theorem update_gps_changes_only_own_entry_witness:
  "ambulance_data (snd (update_gps
       ((initial_state :: unit state)\<lparr>ambulance_data := [KStr ''B2'' \<mapsto> (JFloat 5, JFloat 6)]\<rparr>)
       (JObj [(''ambulance_id'', JStr ''A1''), (''latitude'', JFloat 1), (''longitude'', JFloat 2)])))
     (KStr ''B2'') = Some (JFloat 5, JFloat 6) \<and>
   traffic_light (snd (update_gps
       ((initial_state :: unit state)\<lparr>ambulance_data := [KStr ''B2'' \<mapsto> (JFloat 5, JFloat 6)]\<rparr>)
       (JObj [(''ambulance_id'', JStr ''A1''), (''latitude'', JFloat 1), (''longitude'', JFloat 2)])))
     = RED"
  using update_gps_changes_only_own_entry
    [of "JObj [(''ambulance_id'', JStr ''A1''), (''latitude'', JFloat 1), (''longitude'', JFloat 2)]"
        "JStr ''A1''" "KStr ''A1''" "KStr ''B2''"
        "(initial_state :: unit state)\<lparr>ambulance_data := [KStr ''B2'' \<mapsto> (JFloat 5, JFloat 6)]\<rparr>"]
  by (simp add: initial_state_def)

section \<open>Detection\<close>

text \<open>
  The inner loop raises the flag exactly when a box of class 5 occurs, appends the two
  drawing calls for each such box and for no other, and leaves the image alone.
\<close>

lemma scan_boxes_flag:
  "fst (scan_boxes bs (d, fr)) = (d \<or> (\<exists>b\<in>set bs. py_int (cls b) = 5))"
  by (induction bs arbitrary: d fr) (auto simp: Let_def split: prod.splits)

lemma scan_boxes_drawn:
  "drawn (snd (scan_boxes bs (d, fr))) =
     drawn fr @ concat (map annotation_of (filter (\<lambda>b. py_int (cls b) = 5) bs))"
  by (induction bs arbitrary: d fr)
     (auto simp: Let_def annotation_of_def rectangle_def putText_def split: prod.splits)

lemma scan_boxes_pixels: "pixels (snd (scan_boxes bs (d, fr))) = pixels fr"
  by (induction bs arbitrary: d fr)
     (auto simp: Let_def rectangle_def putText_def split: prod.splits)

lemma scan_results_flag:
  "fst (scan_results rs (d, fr)) = (d \<or> (\<exists>r\<in>set rs. \<exists>b\<in>set r. py_int (cls b) = 5))"
proof (induction rs arbitrary: d fr)
  case Nil
  show ?case by simp
next
  case (Cons r rs)
  obtain d1 fr1 where s: "scan_boxes r (d, fr) = (d1, fr1)"
    by (cases "scan_boxes r (d, fr)")
  have "d1 = (d \<or> (\<exists>b\<in>set r. py_int (cls b) = 5))"
    using scan_boxes_flag [of r d fr] s by simp
  then show ?case
    using Cons.IH [of d1 fr1] s by auto
qed

lemma scan_results_drawn:
  "drawn (snd (scan_results rs (d, fr))) =
     drawn fr @ concat (map annotation_of (filter (\<lambda>b. py_int (cls b) = 5) (concat rs)))"
proof (induction rs arbitrary: d fr)
  case Nil
  show ?case by simp
next
  case (Cons r rs)
  obtain d1 fr1 where s: "scan_boxes r (d, fr) = (d1, fr1)"
    by (cases "scan_boxes r (d, fr)")
  have "drawn fr1 = drawn fr @ concat (map annotation_of (filter (\<lambda>b. py_int (cls b) = 5) r))"
    using scan_boxes_drawn [of r d fr] s by simp
  then show ?case
    using Cons.IH [of d1 fr1] s by simp
qed

lemma detect_ambulance_flag:
  "fst (detect_ambulance model fr) = (\<exists>r\<in>set (model fr). \<exists>b\<in>set r. py_int (cls b) = 5)"
  by (simp add: detect_ambulance_def scan_results_flag)

lemma detect_ambulance_drawn:
  "drawn (snd (detect_ambulance model fr)) =
     drawn fr @ concat (map annotation_of (filter (\<lambda>b. py_int (cls b) = 5) (concat (model fr))))"
  by (simp add: detect_ambulance_def scan_results_drawn)

text \<open>
  C2: \<open>detect_ambulance\<close> returns "present" if and only if some detection in the detector's
  output for the frame has class id 5; and when it does, the frame carries the rectangle at
  the bounding box of a detection of class 5 and the text label placed at that box.
\<close>

theorem detect_ambulance_present_iff_class_5:
  "fst (detect_ambulance model fr) = (\<exists>r\<in>set (model fr). \<exists>b\<in>set r. py_int (cls b) = 5) \<and>
   (fst (detect_ambulance model fr) \<longrightarrow>
      (\<exists>r\<in>set (model fr). \<exists>b\<in>set r. py_int (cls b) = 5 \<and>
         (\<exists>a1 b1 a2 b2. xyxy b = (a1, b1, a2, b2) \<and>
            Rectangle (py_int a1, py_int b1) (py_int a2, py_int b2) (0, 255, 255) 3
              \<in> set (drawn (snd (detect_ambulance model fr))) \<and>
            PutText ''AMBULANCE'' (py_int a1, py_int b1 - 10) FONT_HERSHEY_SIMPLEX (8 / 10)
                (0, 255, 255) 2
              \<in> set (drawn (snd (detect_ambulance model fr))))))"
proof (intro conjI impI)
  show "fst (detect_ambulance model fr) = (\<exists>r\<in>set (model fr). \<exists>b\<in>set r. py_int (cls b) = 5)"
    by (rule detect_ambulance_flag)
next
  assume "fst (detect_ambulance model fr)"
  then obtain r b where rb: "r \<in> set (model fr)" "b \<in> set r" "py_int (cls b) = 5"
    by (auto simp: detect_ambulance_flag)
  obtain a1 b1 a2 b2 where x: "xyxy b = (a1, b1, a2, b2)"
    by (cases "xyxy b")
  have "set (annotation_of b) \<subseteq> set (drawn (snd (detect_ambulance model fr)))"
    using rb by (auto simp: detect_ambulance_drawn)
  then have "Rectangle (py_int a1, py_int b1) (py_int a2, py_int b2) (0, 255, 255) 3
               \<in> set (drawn (snd (detect_ambulance model fr))) \<and>
             PutText ''AMBULANCE'' (py_int a1, py_int b1 - 10) FONT_HERSHEY_SIMPLEX (8 / 10)
                 (0, 255, 255) 2
               \<in> set (drawn (snd (detect_ambulance model fr)))"
    using x by (simp add: annotation_of_def)
  with rb x show "\<exists>r\<in>set (model fr). \<exists>b\<in>set r. py_int (cls b) = 5 \<and>
         (\<exists>a1 b1 a2 b2. xyxy b = (a1, b1, a2, b2) \<and>
            Rectangle (py_int a1, py_int b1) (py_int a2, py_int b2) (0, 255, 255) 3
              \<in> set (drawn (snd (detect_ambulance model fr))) \<and>
            PutText ''AMBULANCE'' (py_int a1, py_int b1 - 10) FONT_HERSHEY_SIMPLEX (8 / 10)
                (0, 255, 255) 2
              \<in> set (drawn (snd (detect_ambulance model fr))))"
    by blast
qed

theorem detect_ambulance_present_iff_class_5_witness:
  "fst (detect_ambulance (\<lambda>fr. [[\<lparr>cls = 5, xyxy = (10, 20, 110, 220)\<rparr>]])
          \<lparr>pixels = (), drawn = []\<rparr>) \<and>
   Rectangle (10, 20) (110, 220) (0, 255, 255) 3
     \<in> set (drawn (snd (detect_ambulance (\<lambda>fr. [[\<lparr>cls = 5, xyxy = (10, 20, 110, 220)\<rparr>]])
          \<lparr>pixels = (), drawn = []\<rparr>))) \<and>
   PutText ''AMBULANCE'' (10, 10) FONT_HERSHEY_SIMPLEX (8 / 10) (0, 255, 255) 2
     \<in> set (drawn (snd (detect_ambulance (\<lambda>fr. [[\<lparr>cls = 5, xyxy = (10, 20, 110, 220)\<rparr>]])
          \<lparr>pixels = (), drawn = []\<rparr>)))"
  using detect_ambulance_present_iff_class_5
    [of "\<lambda>fr. [[\<lparr>cls = 5, xyxy = (10, 20, 110, 220)\<rparr>]]" "\<lparr>pixels = (), drawn = []\<rparr>"]
  by (simp add: py_int_def)

section \<open>The signal follows the frame at hand\<close>

lemma process_frame_light:
  "traffic_light (process_frame model img st) =
     (if fst (detect_ambulance model \<lparr>pixels = img, drawn = []\<rparr>) then GREEN else RED)"
  by (simp add: process_frame_def change_traffic_light_def imshow_def print_def Let_def
      split: prod.splits)

text \<open>The frame shown ends with the circle in the colour just written.\<close>

lemma process_frame_window:
  "window (process_frame model img st) =
     window st @ [circle (snd (detect_ambulance model \<lparr>pixels = img, drawn = []\<rparr>)) (50, 50) 30
        (if fst (detect_ambulance model \<lparr>pixels = img, drawn = []\<rparr>) then GREEN else RED) (- 1)]"
  by (simp add: process_frame_def change_traffic_light_def imshow_def print_def Let_def
      draw_traffic_light_def split: prod.splits)

lemma process_frame_opened: "opened (process_frame model img st) = opened st"
  by (simp add: process_frame_def change_traffic_light_def imshow_def print_def Let_def
      split: prod.splits)

lemma read_loop_window:
  "window (read_loop model fd st) =
     window st @
     map (\<lambda>img. circle (snd (detect_ambulance model \<lparr>pixels = img, drawn = []\<rparr>)) (50, 50) 30
            (if fst (detect_ambulance model \<lparr>pixels = img, drawn = []\<rparr>) then GREEN else RED) (- 1))
       (frames_processed fd)"
proof (induction fd arbitrary: st)
  case Nil
  show ?case by simp
next
  case (Cons x fd)
  obtain img key where x: "x = (img, key)"
    by (cases x)
  show ?case
    using Cons.IH [of "process_frame model img st"] x
    by (simp add: Let_def process_frame_window)
qed

lemma read_loop_light:
  "frames_processed fd \<noteq> [] \<Longrightarrow>
   traffic_light (read_loop model fd st) =
     (if fst (detect_ambulance model \<lparr>pixels = last (frames_processed fd), drawn = []\<rparr>)
      then GREEN else RED)"
proof (induction fd arbitrary: st)
  case Nil
  then show ?case by simp
next
  case (Cons x fd)
  obtain img key where x: "x = (img, key)"
    by (cases x)
  show ?case
  proof (cases "key AND 0xFF = 113")
    case True
    with x show ?thesis by (simp add: process_frame_light)
  next
    case False
    show ?thesis
    proof (cases fd)
      case Nil
      with x False show ?thesis by (simp add: process_frame_light)
    next
      case (Cons y ys)
      then have ne: "frames_processed fd \<noteq> []"
        by (cases y) simp
      with x False Cons.IH [OF ne, of "process_frame model img st"] show ?thesis
        by (simp add: Let_def)
    qed
  qed
qed

lemma read_loop_opened: "opened (read_loop model fd st) = opened st"
proof (induction fd arbitrary: st)
  case Nil
  then show ?case by simp
next
  case (Cons x fd)
  obtain img key where x: "x = (img, key)"
    by (cases x)
  with Cons.IH [of "process_frame model img st"] show ?case
    by (simp add: Let_def process_frame_opened)
qed

text \<open>
  C1: for every frame the loop processes, once \<open>change_traffic_light\<close> has run the signal
  state is GREEN if \<open>detect_ambulance\<close> reported "present" for that frame and RED otherwise.
  It is the same whatever the state was before the frame. Over a run of the loop, the
  circle drawn on each frame shown has the colour that the frame's own detection gives,
  and the signal state at the end is the one of the last frame processed.
\<close>

theorem signal_follows_current_frame:
  "traffic_light (process_frame model img st) =
     (if fst (detect_ambulance model \<lparr>pixels = img, drawn = []\<rparr>) then GREEN else RED) \<and>
   traffic_light (process_frame model img st) = traffic_light (process_frame model img st') \<and>
   map (\<lambda>fr. last (drawn fr)) (drop (length (window st)) (window (read_loop model fd st))) =
     map (\<lambda>img. Circle (50, 50) 30
            (if fst (detect_ambulance model \<lparr>pixels = img, drawn = []\<rparr>) then GREEN else RED) (- 1))
       (frames_processed fd) \<and>
   (frames_processed fd \<noteq> [] \<longrightarrow>
      traffic_light (read_loop model fd st) =
        (if fst (detect_ambulance model \<lparr>pixels = last (frames_processed fd), drawn = []\<rparr>)
         then GREEN else RED))"
  by (simp add: process_frame_light read_loop_light read_loop_window circle_def comp_def)

theorem signal_follows_current_frame_witness:
  "traffic_light (process_frame
      (\<lambda>fr. if pixels fr then [[\<lparr>cls = 5, xyxy = (10, 20, 110, 220)\<rparr>]] else [])
      True initial_state) = GREEN \<and>
   frames_processed [(True, - 1), (False, - 1)] \<noteq> [] \<and>
   traffic_light (read_loop
      (\<lambda>fr. if pixels fr then [[\<lparr>cls = 5, xyxy = (10, 20, 110, 220)\<rparr>]] else [])
      [(True, - 1), (False, - 1)] initial_state) = RED"
  using signal_follows_current_frame
    [of "\<lambda>fr. if pixels fr then [[\<lparr>cls = 5, xyxy = (10, 20, 110, 220)\<rparr>]] else []"
        True initial_state initial_state "[(True, - 1), (False, - 1)]"]
  by (simp add: detect_ambulance_def py_int_def Let_def)

section \<open>The signal is red or green\<close>

lemma read_loop_red_or_green:
  "traffic_light st = RED \<or> traffic_light st = GREEN \<Longrightarrow>
   traffic_light (read_loop model fd st) = RED \<or> traffic_light (read_loop model fd st) = GREEN"
proof (induction fd arbitrary: st)
  case Nil
  then show ?case by simp
next
  case (Cons x fd)
  obtain img key where x: "x = (img, key)"
    by (cases x)
  have "traffic_light (process_frame model img st) = RED \<or>
        traffic_light (process_frame model img st) = GREEN"
    by (simp add: process_frame_light)
  from Cons.IH [OF this] this x show ?case
    by (simp add: Let_def)
qed

lemma main_red_or_green:
  assumes "traffic_light st = RED \<or> traffic_light st = GREEN"
  shows "traffic_light (snd (main VideoCapture model a st)) = RED \<or>
         traffic_light (snd (main VideoCapture model a st)) = GREEN"
proof -
  have "traffic_light (video_loop model cap (st\<lparr>opened := ops\<rparr>)) = RED \<or>
        traffic_light (video_loop model cap (st\<lparr>opened := ops\<rparr>)) = GREEN" for cap ops
    using read_loop_red_or_green [of "st\<lparr>opened := ops\<rparr>" model "feed cap"] assms
    by (simp add: video_loop_def)
  then show ?thesis
    using assms by (auto simp: main_def print_def split: option.splits)
qed

text \<open>
  C10: the signal state always holds one of the two colours RED = (0, 0, 255) and
  GREEN = (0, 255, 0), which differ. It is RED at start-up, \<open>change_traffic_light\<close> writes
  one of the two, and so it is one of the two in every state the program reaches.
\<close>

theorem traffic_light_red_or_green:
  assumes "reachable model st"
  shows "(traffic_light st = RED \<or> traffic_light st = GREEN) \<and>
         RED = (0, 0, 255) \<and> GREEN = (0, 255, 0) \<and> RED \<noteq> GREEN \<and>
         traffic_light initial_state = RED \<and>
         (traffic_light (change_traffic_light d st') = RED \<or>
          traffic_light (change_traffic_light d st') = GREEN)"
proof -
  have "traffic_light st = RED \<or> traffic_light st = GREEN"
    using assms
  proof (induction rule: reachable.induct)
    case start
    show ?case by (simp add: initial_state_def)
  next
    case (request st data)
    then show ?case
      by (auto simp: update_gps_def setitem_def Let_def split: sum.splits)
  next
    case (switch st d)
    show ?case by (simp add: change_traffic_light_def)
  next
    case (frame st img)
    show ?case by (simp add: process_frame_light)
  next
    case (run st VideoCapture a)
    from run.IH show ?case by (rule main_red_or_green)
  qed
  then show ?thesis
    by (simp add: RED_def GREEN_def initial_state_def change_traffic_light_def)
qed

theorem traffic_light_red_or_green_witness:
  "reachable (\<lambda>fr. []) (process_frame (\<lambda>fr. []) () initial_state) \<and>
   (traffic_light (process_frame (\<lambda>fr. []) () initial_state) = RED \<or>
    traffic_light (process_frame (\<lambda>fr. []) () initial_state) = GREEN)"
proof -
  have r: "reachable (\<lambda>fr. []) (process_frame (\<lambda>fr. []) () initial_state)"
    by (intro reachable.intros)
  from traffic_light_red_or_green [OF r] r show ?thesis
    by blast
qed

section \<open>Choosing the video source\<close>

text \<open>
  C5, as the claim states it, fails: the two flags are not mutually exclusive. The parser
  declares them independently, and with both given the program does not stop: it opens
  the webcam, ignores the path and ends with status 0.
\<close>

theorem main_both_flags_counterexample:
  "main (\<lambda>src. \<lparr>is_opened = True, feed = []\<rparr>) (\<lambda>fr. [])
     \<lparr>path = Some ''video.mp4'', live = True\<rparr> (initial_state :: unit state)
   = (0, initial_state\<lparr>opened := [Webcam 0]\<rparr>)"
  by (simp add: main_def video_loop_def initial_state_def)

text \<open>
  C5, amended: the two flags may be given together, and then the live-camera flag wins:
  with it the program opens the webcam and nothing else, whatever the path; without it and
  with a non-empty path it opens that file and nothing else. When both flags are absent
  the program prints the error message and exits with status 1, without opening any video
  source and without any other effect.
\<close>

theorem main_source_selection:
  "(live a \<longrightarrow> fst (main VideoCapture model a st) = 0 \<and>
       opened (snd (main VideoCapture model a st)) = opened st @ [Webcam 0]) \<and>
   (\<not> live a \<and> path a = Some p \<and> p \<noteq> [] \<longrightarrow> fst (main VideoCapture model a st) = 0 \<and>
       opened (snd (main VideoCapture model a st)) = opened st @ [VideoFile p]) \<and>
   (\<not> live a \<and> path a = None \<longrightarrow>
       main VideoCapture model a st = (1, st\<lparr>console := console st @ [msg_usage]\<rparr>))"
  by (auto simp: main_def video_loop_def read_loop_opened print_def)

theorem main_source_selection_witness:
  "fst (main (\<lambda>src. \<lparr>is_opened = True, feed = []\<rparr>) (\<lambda>fr. []) \<lparr>path = None, live = True\<rparr>
        (initial_state :: unit state)) = 0 \<and>
   opened (snd (main (\<lambda>src. \<lparr>is_opened = True, feed = []\<rparr>) (\<lambda>fr. []) \<lparr>path = None, live = True\<rparr>
        (initial_state :: unit state))) = [Webcam 0] \<and>
   opened (snd (main (\<lambda>src. \<lparr>is_opened = True, feed = []\<rparr>) (\<lambda>fr. [])
        \<lparr>path = Some ''video.mp4'', live = False\<rparr> (initial_state :: unit state)))
     = [VideoFile ''video.mp4''] \<and>
   main (\<lambda>src. \<lparr>is_opened = True, feed = []\<rparr>) (\<lambda>fr. []) \<lparr>path = None, live = False\<rparr>
        (initial_state :: unit state) = (1, initial_state\<lparr>console := [msg_usage]\<rparr>)"
  using main_source_selection
      [of "\<lparr>path = None, live = True\<rparr>" "\<lambda>src. \<lparr>is_opened = True, feed = []\<rparr>" "\<lambda>fr. []"
          "initial_state :: unit state" "''video.mp4''"]
    main_source_selection
      [of "\<lparr>path = Some ''video.mp4'', live = False\<rparr>" "\<lambda>src. \<lparr>is_opened = True, feed = []\<rparr>"
          "\<lambda>fr. []" "initial_state :: unit state" "''video.mp4''"]
    main_source_selection
      [of "\<lparr>path = None, live = False\<rparr>" "\<lambda>src. \<lparr>is_opened = True, feed = []\<rparr>" "\<lambda>fr. []"
          "initial_state :: unit state" "''video.mp4''"]
  by (simp add: initial_state_def)

end
